theory Spec2Isabelle
  imports Main "HOL-Library.Word"
begin

unbundle bit_operations_syntax

section \<open>Data model of package geohash\<close>

text \<open>
  The Go types \<^verbatim>\<open>uint32\<close> and \<^verbatim>\<open>uint64\<close> are words of that width. Go's \<^verbatim>\<open>uint\<close> is
  modelled at its width on 64-bit targets. A shift \<^verbatim>\<open>x << s\<close> or \<^verbatim>\<open>x >> s\<close> of an unsigned
  Go value by a count of at least the width gives 0, which is what \<open>push_bit\<close> and
  \<open>drop_bit\<close> do on words.

  A \<^verbatim>\<open>float64\<close> is carried as its IEEE-754 bit pattern. Floating-point arithmetic itself
  is not defined here: every function that computes on floats takes the primitive
  operations as a parameter \<open>ops\<close>, so each theorem below holds whatever these
  operations return.
\<close>

type_synonym u32 = "32 word"
type_synonym u64 = "64 word"
type_synonym uint = "64 word"
type_synonym float64 = "64 word"

record float_ops =
  fadd :: "float64 \<Rightarrow> float64 \<Rightarrow> float64"
  fmul :: "float64 \<Rightarrow> float64 \<Rightarrow> float64"
  fdiv :: "float64 \<Rightarrow> float64 \<Rightarrow> float64"
  fge :: "float64 \<Rightarrow> float64 \<Rightarrow> bool"
  fcos :: "float64 \<Rightarrow> float64"
  float_of_u32 :: "u32 \<Rightarrow> float64"
  u32_of_float :: "float64 \<Rightarrow> u32"

text \<open>The floating-point literals of the source, as bit patterns.\<close>

definition f_90 :: float64 where "f_90 = 0x4056800000000000"
definition f_180 :: float64 where "f_180 = 0x4066800000000000"
definition f_360 :: float64 where "f_360 = 0x4076800000000000"
definition f_neg90 :: float64 where "f_neg90 = 0xC056800000000000"
definition f_neg180 :: float64 where "f_neg180 = 0xC066800000000000"
definition f_half :: float64 where "f_half = 0x3FE0000000000000"
definition f_2 :: float64 where "f_2 = 0x4000000000000000"
definition f_2p32 :: float64 where "f_2p32 = 0x41F0000000000000"
definition f_Pi :: float64 where "f_Pi = 0x400921FB54442D18"

text \<open>\<^verbatim>\<open>EarthRadius * (math.Pi / 180.0)\<close>, an exact constant expression rounded once.\<close>

definition LatitudeDegreeLength :: float64 where
  "LatitudeDegreeLength = 0x40FB2D77DA4A0C31"

text \<open>
  \<^verbatim>\<open>Direction\<close> is an \<^verbatim>\<open>int\<close> with eight named constants; the model has these eight.
\<close>

datatype Direction =
  North | NorthEast | East | SouthEast | South | SouthWest | West | NorthWest

record Range =
  Min_r :: u64
  Max_r :: u64

record fastGeoHash =
  hash :: u64
  latBits :: u32
  lonBits :: u32
  lat :: float64
  lon :: float64
  precision :: uint
  coordinatesCalculated :: bool
  hashCalculated :: bool
  bitsCalculated :: bool

text \<open>
  A value of the interface type \<^verbatim>\<open>GeoHash\<close> is \<open>None\<close> (the nil interface) or \<open>Some\<close>
  cell. Calling a method on the nil interface panics: that is \<open>NilDereference\<close>, the
  only failure the source has. \<open>DomainError\<close> is the failure the specification
  describes for a precision outside [1,64]; no function of the source produces it.
\<close>

datatype error = NilDereference | DomainError

section \<open>Morton codec\<close>

definition b0 :: u64 where "b0 = 0x5555555555555555"
definition b1 :: u64 where "b1 = 0x3333333333333333"
definition b2 :: u64 where "b2 = 0x0F0F0F0F0F0F0F0F"
definition b3 :: u64 where "b3 = 0x00FF00FF00FF00FF"
definition b4 :: u64 where "b4 = 0x0000FFFF0000FFFF"
definition b5 :: u64 where "b5 = 0x00000000FFFFFFFF"

definition interleave :: "u32 \<Rightarrow> u32 \<Rightarrow> u64" where
  "interleave x y =
    (let i = (ucast x :: u64);
         j = (ucast y :: u64);
         i = (i OR push_bit 16 i) AND b4;
         j = (j OR push_bit 16 j) AND b4;
         i = (i OR push_bit 8 i) AND b3;
         j = (j OR push_bit 8 j) AND b3;
         i = (i OR push_bit 4 i) AND b2;
         j = (j OR push_bit 4 j) AND b2;
         i = (i OR push_bit 2 i) AND b1;
         j = (j OR push_bit 2 j) AND b1;
         i = (i OR push_bit 1 i) AND b0;
         j = (j OR push_bit 1 j) AND b0
     in i OR push_bit 1 j)"

definition deinterleave :: "u64 \<Rightarrow> u32 \<times> u32" where
  "deinterleave z =
    (let i = z;
         j = drop_bit 1 z;
         i = i AND b0;
         j = j AND b0;
         i = (i OR drop_bit 1 i) AND b1;
         j = (j OR drop_bit 1 j) AND b1;
         i = (i OR drop_bit 2 i) AND b2;
         j = (j OR drop_bit 2 j) AND b2;
         i = (i OR drop_bit 4 i) AND b3;
         j = (j OR drop_bit 4 j) AND b3;
         i = (i OR drop_bit 8 i) AND b4;
         j = (j OR drop_bit 8 j) AND b4;
         i = (i OR drop_bit 16 i) AND b5;
         j = (j OR drop_bit 16 j) AND b5
     in (ucast i :: u32, ucast j :: u32))"

text \<open>
  The two halves of the codec, named for the proofs: \<open>spread\<close> is the chain of five
  steps that \<open>interleave\<close> applies to each of \<open>i\<close> and \<open>j\<close>, and \<open>squash\<close> the chain of
  six steps that \<open>deinterleave\<close> applies to each.
\<close>

definition spread :: "u64 \<Rightarrow> u64" where
  "spread i0 =
    (let i = i0;
         i = (i OR push_bit 16 i) AND b4;
         i = (i OR push_bit 8 i) AND b3;
         i = (i OR push_bit 4 i) AND b2;
         i = (i OR push_bit 2 i) AND b1;
         i = (i OR push_bit 1 i) AND b0
     in i)"

definition squash :: "u64 \<Rightarrow> u64" where
  "squash i0 =
    (let i = i0;
         i = i AND b0;
         i = (i OR drop_bit 1 i) AND b1;
         i = (i OR drop_bit 2 i) AND b2;
         i = (i OR drop_bit 4 i) AND b3;
         i = (i OR drop_bit 8 i) AND b4;
         i = (i OR drop_bit 16 i) AND b5
     in i)"

section \<open>Coordinate transform\<close>

definition calcBitsFromCoords :: "float_ops \<Rightarrow> fastGeoHash \<Rightarrow> fastGeoHash" where
  "calcBitsFromCoords ops f =
    (let lat_offset = fdiv ops (fadd ops (lat f) f_90) f_180;
         lon_offset = fdiv ops (fadd ops (lon f) f_180) f_360;
         lat_offset = fmul ops lat_offset f_2p32;
         lon_offset = fmul ops lon_offset f_2p32
     in f\<lparr>latBits := u32_of_float ops lat_offset,
          lonBits := u32_of_float ops lon_offset,
          bitsCalculated := True\<rparr>)"

definition calcCoordsFromBits :: "float_ops \<Rightarrow> fastGeoHash \<Rightarrow> fastGeoHash" where
  "calcCoordsFromBits ops f =
    (let lat_offset = fadd ops (float_of_u32 ops (latBits f)) f_half;
         lon_offset = fadd ops (float_of_u32 ops (lonBits f)) f_half;
         lat_offset = fdiv ops lat_offset f_2p32;
         lon_offset = fdiv ops lon_offset f_2p32
     in f\<lparr>lat := fadd ops f_neg90 (fmul ops lat_offset f_180),
          lon := fadd ops f_neg180 (fmul ops lon_offset f_360),
          coordinatesCalculated := True\<rparr>)"

section \<open>The value type and its constructors\<close>

text \<open>Fields a Go composite literal leaves out hold the zero value.\<close>

definition FromCoordinates :: "float64 \<Rightarrow> float64 \<Rightarrow> fastGeoHash" where
  "FromCoordinates latitude longitude =
    \<lparr>hash = 0, latBits = 0, lonBits = 0,
     lat = latitude, lon = longitude,
     precision = 0,
     coordinatesCalculated = True, hashCalculated = False, bitsCalculated = False\<rparr>"

definition FromHash :: "u64 \<Rightarrow> uint \<Rightarrow> fastGeoHash" where
  "FromHash h p =
    (let mask = NOT (push_bit (unat (64 - p)) (1 :: u64) - 1)
     in \<lparr>hash = h AND mask, latBits = 0, lonBits = 0,
         lat = 0, lon = 0,
         precision = p,
         coordinatesCalculated = False, hashCalculated = True, bitsCalculated = False\<rparr>)"

text \<open>
  The methods memoise into the receiver, so each returns the receiver as it is after
  the call next to its result.
\<close>

definition Hash :: "float_ops \<Rightarrow> fastGeoHash \<Rightarrow> u64 \<times> fastGeoHash" where
  "Hash ops f0 =
    (if \<not> hashCalculated f0 then
       (let f = (if \<not> bitsCalculated f0 then calcBitsFromCoords ops f0 else f0);
            f = f\<lparr>hash := interleave (latBits f) (lonBits f)\<rparr>;
            f = f\<lparr>hashCalculated := True\<rparr>
        in (hash f, f))
     else (hash f0, f0))"

definition Coordinates :: "float_ops \<Rightarrow> fastGeoHash \<Rightarrow> (float64 \<times> float64) \<times> fastGeoHash" where
  "Coordinates ops f0 =
    (if \<not> coordinatesCalculated f0 then
       (let f = (if \<not> bitsCalculated f0 then
                   (case deinterleave (hash f0) of
                      (x, y) \<Rightarrow> f0\<lparr>latBits := x, lonBits := y, bitsCalculated := True\<rparr>)
                 else f0);
            f = calcCoordsFromBits ops f
        in ((lat f, lon f), f))
     else ((lat f0, lon f0), f0))"

definition Precision :: "fastGeoHash \<Rightarrow> uint" where
  "Precision f = precision f"

definition GetInPrecision :: "float_ops \<Rightarrow> uint \<Rightarrow> fastGeoHash \<Rightarrow> fastGeoHash \<times> fastGeoHash" where
  "GetInPrecision ops p f0 =
    (case Hash ops f0 of (h, f) \<Rightarrow> (FromHash h p, f))"

section \<open>Adjacency\<close>

text \<open>
  In \<^verbatim>\<open>uint32((1<<(32-latPrecision))-1)\<close> and \<^verbatim>\<open>uint32(1 << (32 - latPrecision))\<close> the
  constant 1 takes the type \<^verbatim>\<open>uint32\<close> of the conversion, so the shifts are 32-bit
  shifts; the count \<^verbatim>\<open>32 - latPrecision\<close> is computed in \<^verbatim>\<open>uint\<close> and wraps.
  A \<^verbatim>\<open>return nil\<close> is the result \<open>None\<close>.
\<close>

definition GetAdjacent ::
  "float_ops \<Rightarrow> Direction \<Rightarrow> fastGeoHash \<Rightarrow> fastGeoHash option \<times> fastGeoHash" where
  "GetAdjacent ops dir f0 =
    (let f = (if \<not> bitsCalculated f0 then
                (if hashCalculated f0 then
                   (case deinterleave (hash f0) of
                      (x, y) \<Rightarrow> f0\<lparr>latBits := x, lonBits := y, bitsCalculated := True\<rparr>)
                 else calcBitsFromCoords ops f0)
              else f0);
         lonPrecision = precision f div 2;
         latPrecision = (if precision f AND 1 \<noteq> 0 then lonPrecision - 1 else lonPrecision);
         north = (if latBits f - (push_bit (unat (32 - latPrecision)) (1 :: u32) - 1) = 0
                  then None
                  else Some (latBits f + push_bit (unat (32 - latPrecision)) (1 :: u32)));
         south = (if latBits f = 0
                  then None
                  else Some (latBits f - push_bit (unat (32 - latPrecision)) (1 :: u32)));
         latMoved = (case dir of
                       North \<Rightarrow> north | NorthEast \<Rightarrow> north | NorthWest \<Rightarrow> north
                     | South \<Rightarrow> south | SouthEast \<Rightarrow> south | SouthWest \<Rightarrow> south
                     | East \<Rightarrow> Some (latBits f) | West \<Rightarrow> Some (latBits f));
         east = lonBits f + push_bit (unat (32 - lonPrecision)) (1 :: u32);
         west = lonBits f - push_bit (unat (32 - lonPrecision)) (1 :: u32);
         lonMoved = (case dir of
                       East \<Rightarrow> east | NorthEast \<Rightarrow> east | SouthEast \<Rightarrow> east
                     | West \<Rightarrow> west | NorthWest \<Rightarrow> west | SouthWest \<Rightarrow> west
                     | North \<Rightarrow> lonBits f | South \<Rightarrow> lonBits f)
     in (case latMoved of
           None \<Rightarrow> (None, f)
         | Some la \<Rightarrow>
             (Some \<lparr>hash = 0, latBits = la, lonBits = lonMoved,
                    lat = 0, lon = 0,
                    precision = precision f,
                    coordinatesCalculated = False, hashCalculated = False,
                    bitsCalculated = True\<rparr>, f)))"

text \<open>
  The two parts of \<open>GetAdjacent\<close>, named for the proofs: \<open>loadBits\<close> is its first
  statement, which makes sure that the receiver holds its grid coordinates, and
  \<open>moveFrom\<close> is the rest, the move from a receiver that holds them.
\<close>

definition loadBits :: "float_ops \<Rightarrow> fastGeoHash \<Rightarrow> fastGeoHash" where
  "loadBits ops f0 =
    (if \<not> bitsCalculated f0 then
       (if hashCalculated f0 then
          (case deinterleave (hash f0) of
             (x, y) \<Rightarrow> f0\<lparr>latBits := x, lonBits := y, bitsCalculated := True\<rparr>)
        else calcBitsFromCoords ops f0)
     else f0)"

definition moveFrom :: "Direction \<Rightarrow> fastGeoHash \<Rightarrow> fastGeoHash option" where
  "moveFrom dir f =
    (let lonPrecision = precision f div 2;
         latPrecision = (if precision f AND 1 \<noteq> 0 then lonPrecision - 1 else lonPrecision);
         north = (if latBits f - (push_bit (unat (32 - latPrecision)) (1 :: u32) - 1) = 0
                  then None
                  else Some (latBits f + push_bit (unat (32 - latPrecision)) (1 :: u32)));
         south = (if latBits f = 0
                  then None
                  else Some (latBits f - push_bit (unat (32 - latPrecision)) (1 :: u32)));
         latMoved = (case dir of
                       North \<Rightarrow> north | NorthEast \<Rightarrow> north | NorthWest \<Rightarrow> north
                     | South \<Rightarrow> south | SouthEast \<Rightarrow> south | SouthWest \<Rightarrow> south
                     | East \<Rightarrow> Some (latBits f) | West \<Rightarrow> Some (latBits f));
         east = lonBits f + push_bit (unat (32 - lonPrecision)) (1 :: u32);
         west = lonBits f - push_bit (unat (32 - lonPrecision)) (1 :: u32);
         lonMoved = (case dir of
                       East \<Rightarrow> east | NorthEast \<Rightarrow> east | SouthEast \<Rightarrow> east
                     | West \<Rightarrow> west | NorthWest \<Rightarrow> west | SouthWest \<Rightarrow> west
                     | North \<Rightarrow> lonBits f | South \<Rightarrow> lonBits f)
     in (case latMoved of
           None \<Rightarrow> None
         | Some la \<Rightarrow>
             Some \<lparr>hash = 0, latBits = la, lonBits = lonMoved,
                   lat = 0, lon = 0,
                   precision = precision f,
                   coordinatesCalculated = False, hashCalculated = False,
                   bitsCalculated = True\<rparr>))"

definition GetNeighbors ::
  "float_ops \<Rightarrow> fastGeoHash \<Rightarrow> fastGeoHash option list \<times> fastGeoHash" where
  "GetNeighbors ops f0 =
    (case GetAdjacent ops North f0 of (n0, f) \<Rightarrow>
     case GetAdjacent ops NorthEast f of (n1, f) \<Rightarrow>
     case GetAdjacent ops East f of (n2, f) \<Rightarrow>
     case GetAdjacent ops SouthEast f of (n3, f) \<Rightarrow>
     case GetAdjacent ops South f of (n4, f) \<Rightarrow>
     case GetAdjacent ops SouthWest f of (n5, f) \<Rightarrow>
     case GetAdjacent ops West f of (n6, f) \<Rightarrow>
     case GetAdjacent ops NorthWest f of (n7, f) \<Rightarrow>
       ([n0, n1, n2, n3, n4, n5, n6, n7], f))"

section \<open>Proximity precision\<close>

text \<open>
  Each of the two counting loops of \<^verbatim>\<open>getProximitySearchPrecision\<close>: \<open>n\<close> is the number
  of iterations left of the 32.
\<close>

fun halvings :: "float_ops \<Rightarrow> nat \<Rightarrow> float64 \<Rightarrow> float64 \<Rightarrow> uint \<Rightarrow> uint" where
  "halvings ops 0 required degrees prec = prec"
| "halvings ops (Suc n) required degrees prec =
    (if fge ops required (fdiv ops degrees f_2) then prec
     else halvings ops n required (fdiv ops degrees f_2) (prec + 1))"

definition getProximitySearchPrecision :: "float_ops \<Rightarrow> float64 \<Rightarrow> float64 \<Rightarrow> uint" where
  "getProximitySearchPrecision ops latitude radius =
    (let LongitudeDegreeLength =
           fmul ops LatitudeDegreeLength (fcos ops (fdiv ops (fmul ops latitude f_Pi) f_180));
         requiredLatDegrees = fdiv ops radius LatitudeDegreeLength;
         requiredLonDegrees = fdiv ops radius LongitudeDegreeLength;
         latPrecision = halvings ops 32 requiredLatDegrees f_180 0;
         lonPrecision = halvings ops 32 requiredLonDegrees f_360 0
     in if latPrecision < lonPrecision then lonPrecision * 2 - 1 else lonPrecision * 2)"

section \<open>Range coverage\<close>

text \<open>
  The inner \<^verbatim>\<open>j\<close> loop of the branch ``new range before i'': it looks from \<open>j\<close> on for a
  range that ends right below \<open>r\<close>, absorbs it into \<open>ranges ! i\<close>, moves the last range
  into its place and drops the last slot.
\<close>

function absorbBefore :: "Range \<Rightarrow> nat \<Rightarrow> nat \<Rightarrow> Range list \<Rightarrow> Range list" where
  "absorbBefore r i j ranges =
    (if j < length ranges then
       (if Max_r (ranges ! j) + 1 = Min_r r then
          (let ranges = ranges[i := (ranges ! i)\<lparr>Min_r := Min_r (ranges ! j)\<rparr>];
               ranges = ranges[j := ranges ! (length ranges - 1)]
           in take (length ranges - 1) ranges)
        else absorbBefore r i (j + 1) ranges)
     else ranges)"
  by pat_completeness auto
termination
  by (relation "measure (\<lambda>(r, i, j, ranges). length ranges - j)") auto

text \<open>The inner \<^verbatim>\<open>j\<close> loop of the branch ``new range after i''.\<close>

function absorbAfter :: "Range \<Rightarrow> nat \<Rightarrow> nat \<Rightarrow> Range list \<Rightarrow> Range list" where
  "absorbAfter r i j ranges =
    (if j < length ranges then
       (if Max_r r + 1 = Min_r (ranges ! j) then
          (let ranges = ranges[i := (ranges ! i)\<lparr>Max_r := Max_r (ranges ! j)\<rparr>];
               ranges = ranges[j := ranges ! (length ranges - 1)]
           in take (length ranges - 1) ranges)
        else absorbAfter r i (j + 1) ranges)
     else ranges)"
  by pat_completeness auto
termination
  by (relation "measure (\<lambda>(r, i, j, ranges). length ranges - j)") auto

text \<open>The \<^verbatim>\<open>i\<close> loop over the working set; the result carries \<^verbatim>\<open>found\<close>.\<close>

function scanRanges :: "Range \<Rightarrow> nat \<Rightarrow> Range list \<Rightarrow> Range list \<times> bool" where
  "scanRanges r i ranges =
    (if i < length ranges then
       (if Max_r r + 1 = Min_r (ranges ! i) then
          (absorbBefore r i (i + 1) (ranges[i := (ranges ! i)\<lparr>Min_r := Min_r r\<rparr>]), True)
        else if Max_r (ranges ! i) + 1 = Min_r r then
          (absorbAfter r i (i + 1) (ranges[i := (ranges ! i)\<lparr>Max_r := Max_r r\<rparr>]), True)
        else scanRanges r (i + 1) ranges)
     else (ranges, False))"
  by pat_completeness auto
termination
  by (relation "measure (\<lambda>(r, i, ranges). length ranges - i)") auto

definition mergeRange :: "Range \<Rightarrow> Range list \<Rightarrow> Range list" where
  "mergeRange r ranges =
    (case scanRanges r 0 ranges of
       (ranges, found) \<Rightarrow> if \<not> found then ranges @ [r] else ranges)"

text \<open>
  The loop over the neighbours. \<^verbatim>\<open>n.Hash()\<close> on a nil neighbour is a nil dereference,
  which ends the call with a panic.
\<close>

fun neighborRanges ::
  "float_ops \<Rightarrow> u64 \<Rightarrow> u64 \<Rightarrow> fastGeoHash option list \<Rightarrow> Range list \<Rightarrow> error + Range list" where
  "neighborRanges ops mn mx [] ranges = Inr ranges"
| "neighborRanges ops mn mx (n # ns) ranges =
    (case n of
       None \<Rightarrow> Inl NilDereference
     | Some g \<Rightarrow>
         (case Hash ops g of (h, g') \<Rightarrow>
            neighborRanges ops mn mx ns
              (mergeRange \<lparr>Min_r = h AND mn, Max_r = h OR mx\<rparr> ranges)))"

definition GetHashRangesInside ::
  "float_ops \<Rightarrow> float64 \<Rightarrow> fastGeoHash \<Rightarrow> (error + Range list) \<times> fastGeoHash" where
  "GetHashRangesInside ops radius f0 =
    (case Coordinates ops f0 of ((lt, ln), f) \<Rightarrow>
     let bestPrecision = getProximitySearchPrecision ops lt radius in
     case GetInPrecision ops bestPrecision f of (h, f) \<Rightarrow>
     case GetNeighbors ops h of (neighbors, h) \<Rightarrow>
     let mn = NOT (drop_bit (unat bestPrecision) (- 1 :: u64));
         mx = drop_bit (unat bestPrecision) (- 1 :: u64) in
     case Hash ops h of (hsh, h) \<Rightarrow>
       (neighborRanges ops mn mx neighbors [\<lparr>Min_r = hsh AND mn, Max_r = hsh OR mx\<rparr>], f))"

text \<open>
  The column of a cell of precision \<open>p\<close> that a longitude grid coordinate lies in. A code
  of \<open>p\<close> bits holds the longitude bits at the odd positions from 63 down, that is the
  top \<open>(p + 1) div 2\<close> bits of the coordinate, so the cells of precision \<open>p\<close> form
  \<open>2 ^ ((p + 1) div 2)\<close> columns.
\<close>

definition lonColumn :: "uint \<Rightarrow> u32 \<Rightarrow> nat" where
  "lonColumn p w = unat (drop_bit (32 - (unat p + 1) div 2) w)"

text \<open>
  Truncation as the specification words it, to compare \<open>FromHash\<close> with: a domain
  error when the precision is outside [1,64], and otherwise a new value of that precision
  whose code is the hash with the low \<open>64 - p\<close> bits masked off.
\<close>

definition withPrecision_spec :: "u64 \<Rightarrow> uint \<Rightarrow> error + fastGeoHash" where
  "withPrecision_spec h p =
    (if 1 \<le> unat p \<and> unat p \<le> 64 then
       Inr \<lparr>hash = h AND NOT (mask (64 - unat p)), latBits = 0, lonBits = 0,
            lat = 0, lon = 0,
            precision = p,
            coordinatesCalculated = False, hashCalculated = True, bitsCalculated = False\<rparr>
     else Inl DomainError)"

text \<open>
  Sample float operations, for evaluating the model on concrete inputs. Division by 2.0
  lowers the exponent field by one and \<open>\<ge>\<close> compares bit patterns, which is what
  IEEE-754 does on the positive normal numbers the halving loops meet; every other
  division returns 23.0, so that both required spans are 23 degrees.
\<close>

definition ops_sample :: float_ops where
  "ops_sample =
    \<lparr>fadd = (\<lambda>a b. a), fmul = (\<lambda>a b. a),
     fdiv = (\<lambda>a b. if b = f_2 then a - 0x0010000000000000 else 0x4037000000000000),
     fge = (\<lambda>a b. b \<le> a), fcos = (\<lambda>a. a),
     float_of_u32 = (\<lambda>w. 0), u32_of_float = (\<lambda>a. 0)\<rparr>"

section \<open>The codec, bit by bit\<close>

lemma all_less_numeral_unfold:
  "(\<forall>i<numeral k. P i) \<longleftrightarrow> P (pred_numeral k) \<and> (\<forall>i<pred_numeral k. P i)"
  by (simp add: numeral_eq_Suc All_less_Suc)

lemma all_less_one_unfold: "(\<forall>i<(1::nat). P i) \<longleftrightarrow> P 0"
  by simp

text \<open>
  Both chains are checked position by position: for each of the 64 (or 32) positions the
  masks are constants, and the chain collapses to a single bit of the input.
\<close>

lemma bit_spread_all:
  "\<forall>n<64. bit (spread (ucast (x::u32))) n \<longleftrightarrow> even n \<and> bit x (n div 2)"
  apply (simp only: all_less_numeral_unfold all_less_one_unfold pred_numeral_simps
      Num.BitM.simps Num.inc.simps simp_thms)
  apply (intro conjI)
  apply (simp_all only: spread_def Let_def bit_and_iff bit_or_iff bit_push_bit_iff)
  apply (simp_all add: b0_def b1_def b2_def b3_def b4_def bit_simps)
  apply (auto dest: bit_imp_le_length)
  done

lemma bit_squash_all:
  "\<forall>n<32. bit (squash z) n \<longleftrightarrow> bit z (2 * n)"
  apply (simp only: all_less_numeral_unfold all_less_one_unfold pred_numeral_simps
      Num.BitM.simps Num.inc.simps simp_thms)
  apply (intro conjI)
  apply (simp_all only: squash_def Let_def bit_and_iff bit_or_iff bit_drop_bit_eq)
  apply (simp_all add: b0_def b1_def b2_def b3_def b4_def b5_def bit_simps numeral_2_eq_2)
  done

lemma bit_spread:
  "n < 64 \<Longrightarrow> bit (spread (ucast (x::u32))) n \<longleftrightarrow> even n \<and> bit x (n div 2)"
  using bit_spread_all by blast

lemma bit_squash: "n < 32 \<Longrightarrow> bit (squash z) n \<longleftrightarrow> bit z (2 * n)"
  using bit_squash_all by blast

lemma interleave_spread:
  "interleave x y = spread (ucast x) OR push_bit 1 (spread (ucast y))"
  by (simp only: interleave_def spread_def Let_def)

lemma deinterleave_squash:
  "deinterleave z = (ucast (squash z), ucast (squash (drop_bit 1 z)))"
  by (simp only: deinterleave_def squash_def Let_def)

lemma bit_interleave:
  "bit (interleave x y) n \<longleftrightarrow>
     bit (spread (ucast x)) n \<or> (1 \<le> n \<and> n < 64 \<and> bit (spread (ucast y)) (n - 1))"
  unfolding interleave_spread bit_or_iff bit_push_bit_iff by auto

lemma bit_interleave_even:
  assumes "i < 32"
  shows "bit (interleave x y) (2 * i) \<longleftrightarrow> bit x i"
proof -
  have "2 * i < 64" using assms by simp
  moreover have "2 * i - 1 < 64" using assms by simp
  moreover have "odd (2 * i - 1)" if "0 < i" using that by presburger
  ultimately show ?thesis
    by (cases "i = 0") (simp_all add: bit_interleave bit_spread)
qed

lemma bit_interleave_odd:
  assumes "i < 32"
  shows "bit (interleave x y) (2 * i + 1) \<longleftrightarrow> bit y i"
proof -
  have "2 * i < 64" "2 * i + 1 < 64" using assms by simp_all
  then show ?thesis
    by (simp add: bit_interleave bit_spread)
qed

lemma squash_interleave_fst: "ucast (squash (interleave x y)) = x"
proof (rule bit_word_eqI)
  fix n assume "n < LENGTH(32)"
  then have "n < 32" by simp
  then show "bit (ucast (squash (interleave x y)) :: u32) n \<longleftrightarrow> bit x n"
    by (simp add: bit_ucast_iff bit_squash bit_interleave_even)
qed

lemma squash_interleave_snd: "ucast (squash (drop_bit 1 (interleave x y))) = y"
proof (rule bit_word_eqI)
  fix n assume "n < LENGTH(32)"
  then have n: "n < 32" by simp
  then show "bit (ucast (squash (drop_bit 1 (interleave x y))) :: u32) n \<longleftrightarrow> bit y n"
    using bit_interleave_odd [OF n, of x y]
    by (simp add: bit_ucast_iff bit_squash bit_drop_bit_eq add.commute)
qed

text \<open>
  Claim C1. For every pair of 32-bit unsigned integers \<open>x\<close> and \<open>y\<close>,
  \<open>deinterleave (interleave x y)\<close> is exactly \<open>(x, y)\<close>.
\<close>

theorem deinterleave_interleave: "deinterleave (interleave x y) = (x, y)"
  by (simp only: deinterleave_squash squash_interleave_fst squash_interleave_snd)

text \<open>
  Claim C9. For every \<open>x\<close>, \<open>y\<close> and every \<open>i\<close> in [0,31], bit \<open>2i\<close> of
  \<open>interleave x y\<close> is bit \<open>i\<close> of \<open>x\<close> and bit \<open>2i+1\<close> is bit \<open>i\<close> of \<open>y\<close>. So in the
  code that \<open>Hash\<close> computes from the grid coordinates, bit 63 is the top bit of
  \<open>lonBits\<close> and bit 62 the top bit of \<open>latBits\<close>, and downwards each odd position holds
  a longitude bit and each even position a latitude bit. The grid coordinates are those
  of the receiver after the call, which computes them first when they are not cached.
\<close>

theorem interleave_bit_layout:
  assumes "i < 32"
  shows "(bit (interleave x y) (2 * i) \<longleftrightarrow> bit x i) \<and>
         (bit (interleave x y) (2 * i + 1) \<longleftrightarrow> bit y i) \<and>
         (\<not> hashCalculated f \<longrightarrow>
            (case Hash ops f of (h, f') \<Rightarrow>
               (bit h (2 * i + 1) \<longleftrightarrow> bit (lonBits f') i) \<and>
               (bit h (2 * i) \<longleftrightarrow> bit (latBits f') i) \<and>
               (bit h 63 \<longleftrightarrow> bit (lonBits f') 31) \<and>
               (bit h 62 \<longleftrightarrow> bit (latBits f') 31)))"
proof -
  have pos: "bit (interleave a b) (2 * i) \<longleftrightarrow> bit a i"
    "bit (interleave a b) (2 * i + 1) \<longleftrightarrow> bit b i" for a b
    using assms by (rule bit_interleave_even, rule bit_interleave_odd)
  have top: "bit (interleave a b) 63 \<longleftrightarrow> bit b 31" "bit (interleave a b) 62 \<longleftrightarrow> bit a 31"
    for a b
    using bit_interleave_odd [of 31 a b] bit_interleave_even [of 31 a b] by simp_all
  show ?thesis
    using pos top by (simp add: Hash_def Let_def calcBitsFromCoords_def)
qed

theorem interleave_bit_layout_witness:
  "(31 :: nat) < 32 \<and>
   bit (interleave 0x80000000 0) 62 \<and> \<not> bit (interleave 0x80000000 0) 63 \<and>
   \<not> hashCalculated
       \<lparr>hash = 0, latBits = 0, lonBits = 0x80000000, lat = 0, lon = 0, precision = 2,
        coordinatesCalculated = False, hashCalculated = False, bitsCalculated = True\<rparr> \<and>
   bit (fst (Hash ops_sample
       \<lparr>hash = 0, latBits = 0, lonBits = 0x80000000, lat = 0, lon = 0, precision = 2,
        coordinatesCalculated = False, hashCalculated = False, bitsCalculated = True\<rparr>)) 63"
  using interleave_bit_layout [of 31 "0x80000000" 0
      "\<lparr>hash = 0, latBits = 0, lonBits = 0x80000000, lat = 0, lon = 0, precision = 2,
        coordinatesCalculated = False, hashCalculated = False, bitsCalculated = True\<rparr>"
      ops_sample]
  by (simp add: Hash_def)

section \<open>Truncation to a precision\<close>

lemma low_mask_in_range:
  assumes "unat (p :: uint) \<le> 64"
  shows "push_bit (unat (64 - p)) (1 :: u64) - 1 = mask (64 - unat p)"
proof -
  from assms have "p \<le> 64" by (simp add: word_le_nat_alt)
  then have "unat (64 - p) = 64 - unat p" by (simp add: unat_sub)
  then show ?thesis by (simp add: mask_eq_exp_minus_1 push_bit_eq_mult)
qed

lemma shift_count_out_of_range:
  assumes "(p :: uint) = 0 \<or> 64 < unat p"
  shows "64 \<le> unat (64 - p)"
proof (cases "p = 0")
  case True
  then show ?thesis by simp
next
  case False
  with assms have "64 < unat p" by simp
  moreover have "unat p < 2 ^ 64" using unsigned_less [of p, where ?'a = nat] by simp
  ultimately show ?thesis
    by (simp add: unat_sub_if_size word_size)
qed

lemma low_mask_out_of_range:
  assumes "(p :: uint) = 0 \<or> 64 < unat p"
  shows "push_bit (unat (64 - p)) (1 :: u64) - 1 = - 1"
proof -
  have "push_bit (unat (64 - p)) (1 :: u64) = 0"
    using shift_count_out_of_range [OF assms] by (simp add: push_bit_eq_mult)
  then show ?thesis by simp
qed

lemma FromHash_in_range:
  "unat (p :: uint) \<le> 64 \<Longrightarrow> hash (FromHash h p) = h AND NOT (mask (64 - unat p))"
  unfolding FromHash_def Let_def by (simp only: low_mask_in_range fastGeoHash.simps)

lemma FromHash_out_of_range:
  "p = 0 \<or> 64 < unat p \<Longrightarrow> hash (FromHash h p) = 0"
  unfolding FromHash_def Let_def by (simp only: low_mask_out_of_range fastGeoHash.simps) simp

lemma FromHash_idem: "FromHash (hash (FromHash h p)) p = FromHash h p"
  by (simp add: FromHash_def Let_def and.assoc)

lemma Hash_FromHash: "Hash ops (FromHash h p) = (hash (FromHash h p), FromHash h p)"
  by (simp add: Hash_def FromHash_def)

lemma GetInPrecision_idem:
  "fst (GetInPrecision ops p (fst (GetInPrecision ops p f))) = fst (GetInPrecision ops p f)"
  by (simp add: GetInPrecision_def Hash_FromHash FromHash_idem split: prod.splits)

lemma precision_FromHash: "precision (FromHash h p) = p"
  by (simp add: FromHash_def Let_def)

lemma precision_GetInPrecision: "precision (fst (GetInPrecision ops p f)) = p"
  by (simp add: GetInPrecision_def precision_FromHash split: prod.splits)

text \<open>
  Claim C5. Truncation is idempotent. \<open>FromHash h p\<close> stores \<open>h\<close> with the low \<open>64 - p\<close>
  bits masked to zero: for a precision up to 64, bit \<open>n\<close> of the stored code is set
  exactly when \<open>n \<ge> 64 - p\<close> and bit \<open>n\<close> of \<open>h\<close> is set. Truncating the result again to
  the same \<open>p\<close> changes nothing, for every \<open>p\<close>: \<open>GetInPrecision p\<close> applied to the
  result of \<open>GetInPrecision p\<close> gives the same value, code and precision included.
\<close>

theorem truncation_idempotent:
  "(unat p \<le> 64 \<longrightarrow>
      (\<forall>n. bit (hash (FromHash h p)) n \<longleftrightarrow> 64 - unat p \<le> n \<and> bit h n)) \<and>
   FromHash (hash (FromHash h p)) p = FromHash h p \<and>
   fst (GetInPrecision ops p (fst (GetInPrecision ops p f))) = fst (GetInPrecision ops p f)"
  by (auto simp add: FromHash_in_range FromHash_idem GetInPrecision_idem bit_simps
      dest: bit_imp_le_length)

theorem truncation_idempotent_witness:
  "unat (5 :: uint) \<le> 64 \<and>
   (\<forall>n. bit (hash (FromHash 0xFFFFFFFFFFFFFFFF 5)) n \<longleftrightarrow>
        59 \<le> n \<and> bit (0xFFFFFFFFFFFFFFFF :: u64) n) \<and>
   FromHash (hash (FromHash 0xFFFFFFFFFFFFFFFF 5)) 5 = FromHash 0xFFFFFFFFFFFFFFFF 5"
  using truncation_idempotent [of 5 "0xFFFFFFFFFFFFFFFF"] by simp

text \<open>
  Claim C6 says that truncation fails with a domain error whenever the precision is
  outside [1,64]. The source has no such check and no way to fail: at precision 0
  \<open>FromHash\<close> returns an ordinary value, of precision 0 and code 0, where the
  specification's function fails.
\<close>

theorem FromHash_precision_zero_counterexample:
  "Inr (FromHash 0xFFFFFFFFFFFFFFFF 0) \<noteq> withPrecision_spec 0xFFFFFFFFFFFFFFFF 0 \<and>
   FromHash 0xFFFFFFFFFFFFFFFF 0 =
     \<lparr>hash = 0, latBits = 0, lonBits = 0, lat = 0, lon = 0, precision = 0,
      coordinatesCalculated = False, hashCalculated = True, bitsCalculated = False\<rparr>"
  by (simp add: withPrecision_spec_def FromHash_def)

text \<open>
  Claim C6, amended. \<open>FromHash\<close> and \<open>GetInPrecision\<close> check nothing and never fail:
  for every precision \<open>p\<close> they return a new value whose precision is \<open>p\<close>. For \<open>p\<close> in
  [1,64] the value is the one the specification describes; for \<open>p = 0\<close> and for
  \<open>p > 64\<close> the stored code is 0.
\<close>

theorem FromHash_total:
  "precision (FromHash h p) = p \<and>
   precision (fst (GetInPrecision ops p f)) = p \<and>
   (1 \<le> unat p \<and> unat p \<le> 64 \<longrightarrow> withPrecision_spec h p = Inr (FromHash h p)) \<and>
   (\<not> (1 \<le> unat p \<and> unat p \<le> 64) \<longrightarrow> hash (FromHash h p) = 0)"
proof -
  have "withPrecision_spec h p = Inr (FromHash h p)" if "1 \<le> unat p" "unat p \<le> 64"
    using that unfolding withPrecision_spec_def FromHash_def Let_def
    by (simp only: low_mask_in_range) simp
  moreover have "hash (FromHash h p) = 0" if "\<not> (1 \<le> unat p \<and> unat p \<le> 64)"
  proof -
    from that have "p = 0 \<or> 64 < unat p" by (auto simp add: unat_eq_0 not_le)
    then show ?thesis by (rule FromHash_out_of_range)
  qed
  ultimately show ?thesis
    by (simp only: precision_FromHash precision_GetInPrecision) blast
qed

theorem FromHash_total_witness:
  "(1 \<le> unat (5 :: uint) \<and> unat (5 :: uint) \<le> 64) \<and>
   withPrecision_spec 0xFFFFFFFFFFFFFFFF 5 = Inr (FromHash 0xFFFFFFFFFFFFFFFF 5) \<and>
   precision (FromHash 0xFFFFFFFFFFFFFFFF 5) = 5 \<and>
   \<not> (1 \<le> unat (65 :: uint) \<and> unat (65 :: uint) \<le> 64) \<and>
   hash (FromHash 0xFFFFFFFFFFFFFFFF 65) = 0"
  using FromHash_total [of "0xFFFFFFFFFFFFFFFF" 5] FromHash_total [of "0xFFFFFFFFFFFFFFFF" 65]
  by simp

text \<open>
  Claim C7 says that a value made from coordinates has precision 64. \<open>FromCoordinates\<close>
  never sets the field, although its comment promises a full precision hash and the
  interface documents \<open>Precision\<close> as 1..64: for every latitude and longitude,
  \<open>Precision\<close> returns 0.
\<close>

theorem FromCoordinates_precision_zero:
  "Precision (FromCoordinates latitude longitude) = 0"
  by (simp add: Precision_def FromCoordinates_def)

section \<open>Properties of adjacency\<close>

lemma GetAdjacent_parts:
  "GetAdjacent ops dir f = (moveFrom dir (loadBits ops f), loadBits ops f)"
  unfolding GetAdjacent_def moveFrom_def loadBits_def
  by (cases dir; simp add: Let_def)

lemma loadBits_cached: "bitsCalculated f \<Longrightarrow> loadBits ops f = f"
  by (simp add: loadBits_def)

lemma loadBits_bits: "bitsCalculated (loadBits ops f)"
  by (simp add: loadBits_def calcBitsFromCoords_def split: prod.splits)

lemma loadBits_precision: "precision (loadBits ops f) = precision f"
  by (simp add: loadBits_def calcBitsFromCoords_def split: prod.splits)

lemma loadBits_idem: "loadBits ops (loadBits ops f) = loadBits ops f"
  by (simp add: loadBits_cached loadBits_bits)

lemma GetNeighbors_eq:
  "GetNeighbors ops f =
     (map (\<lambda>dir. moveFrom dir (loadBits ops f))
        [North, NorthEast, East, SouthEast, South, SouthWest, West, NorthWest],
      loadBits ops f)"
  by (simp add: GetNeighbors_def GetAdjacent_parts loadBits_idem)

lemma deinterleave_zero: "deinterleave 0 = (0, 0)"
  by (simp add: deinterleave_def Let_def)

lemma deinterleave_all_ones: "deinterleave 0xFFFFFFFFFFFFFFFF = (0xFFFFFFFF, 0xFFFFFFFF)"
  by (simp add: deinterleave_def Let_def b0_def b1_def b2_def b3_def b4_def b5_def)

lemma moveFrom_East:
  "moveFrom East f =
     Some \<lparr>hash = 0, latBits = latBits f,
           lonBits = lonBits f + push_bit (unat (32 - precision f div 2)) 1,
           lat = 0, lon = 0, precision = precision f,
           coordinatesCalculated = False, hashCalculated = False, bitsCalculated = True\<rparr>"
  unfolding moveFrom_def Let_def by (simp del: push_bit_of_1)

lemma moveFrom_West:
  "moveFrom West f =
     Some \<lparr>hash = 0, latBits = latBits f,
           lonBits = lonBits f - push_bit (unat (32 - precision f div 2)) 1,
           lat = 0, lon = 0, precision = precision f,
           coordinatesCalculated = False, hashCalculated = False, bitsCalculated = True\<rparr>"
  unfolding moveFrom_def Let_def by (simp del: push_bit_of_1)

lemma moveFrom_south_pole: "latBits f = 0 \<Longrightarrow> moveFrom South f = None"
  by (simp add: moveFrom_def Let_def)

text \<open>
  The southern edge is recognised: from a receiver whose latitude grid coordinate is 0,
  each of the three south-bearing moves returns no cell, at every precision.
\<close>

lemma GetAdjacent_south_pole:
  assumes "latBits (loadBits ops f) = 0"
  shows "fst (GetAdjacent ops South f) = None"
    and "fst (GetAdjacent ops SouthEast f) = None"
    and "fst (GetAdjacent ops SouthWest f) = None"
  using assms by (simp_all add: GetAdjacent_parts moveFrom_def Let_def)

text \<open>
  Claim C2 says that a cell at the maximum latitude returns no cell for North, NorthEast
  and NorthWest. The test the source makes before going north compares \<open>latBits\<close> with
  the step minus one, not with the top of the grid, so it does not recognise the top row.
  At precision 64 the step is 1: the cell of code \<open>0xFFFFFFFFFFFFFFFF\<close>, whose latitude
  coordinate is the largest there is, gets a northern neighbour, and that neighbour's
  latitude coordinate has wrapped around to 0, the south pole. The three north-bearing
  directions all do so.
\<close>

theorem GetAdjacent_north_pole_wraps:
  "fst (GetAdjacent ops North (FromHash 0xFFFFFFFFFFFFFFFF 64)) =
     Some \<lparr>hash = 0, latBits = 0, lonBits = 0xFFFFFFFF, lat = 0, lon = 0, precision = 64,
           coordinatesCalculated = False, hashCalculated = False, bitsCalculated = True\<rparr> \<and>
   fst (GetAdjacent ops NorthEast (FromHash 0xFFFFFFFFFFFFFFFF 64)) =
     Some \<lparr>hash = 0, latBits = 0, lonBits = 0, lat = 0, lon = 0, precision = 64,
           coordinatesCalculated = False, hashCalculated = False, bitsCalculated = True\<rparr> \<and>
   fst (GetAdjacent ops NorthWest (FromHash 0xFFFFFFFFFFFFFFFF 64)) =
     Some \<lparr>hash = 0, latBits = 0, lonBits = 0xFFFFFFFE, lat = 0, lon = 0, precision = 64,
           coordinatesCalculated = False, hashCalculated = False, bitsCalculated = True\<rparr>"
  by (simp add: GetAdjacent_def FromHash_def Let_def deinterleave_all_ones)

subsection \<open>Steps along the longitude axis\<close>

lemma nat_cell_add:
  fixes u :: nat
  shows "((u + 2 ^ s) mod (2 ^ s * 2 ^ k)) div 2 ^ s = (u div 2 ^ s + 1) mod 2 ^ k"
  by (simp add: mod_mult2_eq div_add_self2)

lemma nat_cell_sub:
  fixes u :: nat
  shows "((u + 2 ^ s * 2 ^ k - 2 ^ s) mod (2 ^ s * 2 ^ k)) div 2 ^ s
         = (u div 2 ^ s + 2 ^ k - 1) mod 2 ^ k"
proof -
  have a: "u + 2 ^ s * 2 ^ k - 2 ^ s = u + 2 ^ s * (2 ^ k - 1)"
    by (simp add: diff_mult_distrib2)
  have "((u + 2 ^ s * (2 ^ k - 1)) mod (2 ^ s * 2 ^ k)) div 2 ^ s
      = ((u + 2 ^ s * (2 ^ k - 1)) div 2 ^ s) mod 2 ^ k"
    by (simp add: mod_mult2_eq)
  moreover have "(u + 2 ^ s * (2 ^ k - 1)) div 2 ^ s = u div 2 ^ s + 2 ^ k - 1"
    by simp
  ultimately show ?thesis
    by (simp only: a)
qed

lemma nat_sub_wrap:
  fixes u x m :: nat
  assumes "u < m" "x \<le> m"
  shows "(if x \<le> u then u - x else u + m - x) = (u + m - x) mod m"
proof (cases "x \<le> u")
  case True
  then have e: "u + m - x = (u - x) + m" by simp
  have "(u + m - x) mod m = (u - x + m) mod m" by (simp only: e)
  also have "\<dots> = u - x" using assms by simp
  finally show ?thesis using True by simp
next
  case False
  then have "u + m - x < m" using assms by simp
  then show ?thesis using False by simp
qed

lemma unat_step:
  "unat (push_bit s (1 :: u32)) = (if s < 32 then 2 ^ s else 0)"
proof (cases "s < 32")
  case True
  then have "(2 :: nat) ^ s < 2 ^ 32"
    by (intro power_strict_increasing) simp_all
  then show ?thesis
    using True unfolding unsigned_push_bit_eq by (simp add: take_bit_eq_mod)
next
  case False
  then have "(2 :: nat) ^ 32 dvd 2 ^ s"
    by (intro le_imp_power_dvd) simp
  then show ?thesis
    using False unfolding unsigned_push_bit_eq by (simp add: take_bit_eq_mod)
qed

lemma drop_bit_all: "drop_bit 32 (x :: u32) = 0"
  by (auto simp add: bit_eq_iff bit_simps dest: bit_imp_le_length)

lemma word_cell_add:
  assumes "s + k = 32"
  shows "unat (drop_bit s (w + push_bit s (1 :: u32)))
         = (unat (drop_bit s w) + 1) mod 2 ^ k"
proof (cases "k = 0")
  case True
  with assms have "s = 32" by simp
  then show ?thesis using True by (simp only: drop_bit_all) simp
next
  case False
  then have s: "s < 32" using assms by simp
  have e: "(2 :: nat) ^ 32 = 2 ^ s * 2 ^ k"
    unfolding assms [symmetric] by (simp only: power_add)
  have "unat (w + push_bit s 1) = (unat w + 2 ^ s) mod (2 ^ s * 2 ^ k)"
    unfolding e [symmetric] using s by (simp add: unat_word_ariths unat_step del: push_bit_of_1)
  then show ?thesis
    by (simp only: unat_drop_bit_eq) (simp only: drop_bit_eq_div nat_cell_add)
qed

lemma word_cell_sub:
  assumes "s + k = 32"
  shows "unat (drop_bit s (w - push_bit s (1 :: u32)))
         = (unat (drop_bit s w) + 2 ^ k - 1) mod 2 ^ k"
proof (cases "k = 0")
  case True
  with assms have "s = 32" by simp
  then show ?thesis using True by (simp only: drop_bit_all) simp
next
  case False
  then have s: "s < 32" using assms by simp
  have e: "(2 :: nat) ^ 32 = 2 ^ s * 2 ^ k"
    unfolding assms [symmetric] by (simp only: power_add)
  have "(2 :: nat) ^ s \<le> 2 ^ 32"
    using s by (intro power_increasing) simp_all
  moreover have "unat w < 2 ^ 32"
    using unsigned_less [of w, where ?'a = nat] by simp
  ultimately have wrap: "(if 2 ^ s \<le> unat w then unat w - 2 ^ s else unat w + 2 ^ 32 - 2 ^ s)
      = (unat w + 2 ^ 32 - 2 ^ s) mod 2 ^ 32"
    by (intro nat_sub_wrap)
  have "unat (w - push_bit s 1)
      = (if 2 ^ s \<le> unat w then unat w - 2 ^ s else unat w + 2 ^ 32 - 2 ^ s)"
    using s by (simp add: unat_sub_if_size word_size unat_step del: push_bit_of_1)
  then have "unat (w - push_bit s 1) = (unat w + 2 ^ 32 - 2 ^ s) mod 2 ^ 32"
    by (simp only: wrap)
  then have "unat (w - push_bit s 1) = (unat w + 2 ^ s * 2 ^ k - 2 ^ s) mod (2 ^ s * 2 ^ k)"
    by (simp only: e)
  then show ?thesis
    by (simp only: unat_drop_bit_eq) (simp only: drop_bit_eq_div nat_cell_sub)
qed

lemma lon_shift_count:
  assumes "unat (p :: uint) \<le> 64"
  shows "unat (32 - p div 2) = 32 - unat p div 2"
proof -
  have "unat (p div 2) = unat p div 2" by (simp add: unat_div)
  with assms have "p div 2 \<le> 32" by (simp add: word_le_nat_alt)
  then show ?thesis by (simp add: unat_sub unat_div)
qed

lemma lonColumn_east:
  assumes "unat p \<le> 64" "even (unat p)"
  shows "lonColumn p (w + push_bit (unat (32 - p div 2)) 1)
         = (lonColumn p w + 1) mod 2 ^ (unat p div 2)"
proof -
  have h: "(unat p + 1) div 2 = unat p div 2" using assms(2) by simp
  have "(32 - unat p div 2) + unat p div 2 = 32" using assms(1) by simp
  from word_cell_add [OF this, of w] show ?thesis
    by (simp only: lonColumn_def h lon_shift_count [OF assms(1)])
qed

lemma lonColumn_west:
  assumes "unat p \<le> 64" "even (unat p)"
  shows "lonColumn p (w - push_bit (unat (32 - p div 2)) 1)
         = (lonColumn p w + 2 ^ (unat p div 2) - 1) mod 2 ^ (unat p div 2)"
proof -
  have h: "(unat p + 1) div 2 = unat p div 2" using assms(2) by simp
  have "(32 - unat p div 2) + unat p div 2 = 32" using assms(1) by simp
  from word_cell_sub [OF this, of w] show ?thesis
    by (simp only: lonColumn_def h lon_shift_count [OF assms(1)])
qed

lemma GetAdjacent_east_top_column:
  "GetAdjacent ops East (FromHash 0xFFFFFFFFFFFFFFFF 4) =
     (Some \<lparr>hash = 0, latBits = 0xC0000000, lonBits = 0, lat = 0, lon = 0, precision = 4,
            coordinatesCalculated = False, hashCalculated = False, bitsCalculated = True\<rparr>,
      \<lparr>hash = 0xF000000000000000, latBits = 0xC0000000, lonBits = 0xC0000000,
       lat = 0, lon = 0, precision = 4,
       coordinatesCalculated = False, hashCalculated = True, bitsCalculated = True\<rparr>)"
  by (simp add: GetAdjacent_def FromHash_def Let_def deinterleave_def
      b0_def b1_def b2_def b3_def b4_def b5_def)

text \<open>
  What holds of the moves east and west. Neither ever returns no cell, for any receiver
  and any precision. At an even precision up to 64 the step is one column of cells and
  the move is cyclic in the width of the grid: east from column \<open>c\<close> is column
  \<open>(c + 1) mod 2 ^ (p div 2)\<close>, so the last column wraps to column 0, and west is column
  \<open>(c + 2 ^ (p div 2) - 1) mod 2 ^ (p div 2)\<close>. The columns are those of the grid
  coordinate the receiver holds after the call, which loads it when it is not cached.
\<close>

lemma GetAdjacent_east_west_some:
  "fst (GetAdjacent ops East f) \<noteq> None" "fst (GetAdjacent ops West f) \<noteq> None"
  by (simp_all add: GetAdjacent_parts moveFrom_East moveFrom_West)

lemma GetAdjacent_east_west_even:
  assumes "unat (precision f) \<le> 64" "even (unat (precision f))"
  shows "(case GetAdjacent ops East f of
      (None, f') \<Rightarrow> False
    | (Some g, f') \<Rightarrow>
        lonColumn (precision f) (lonBits g)
          = (lonColumn (precision f) (lonBits f') + 1) mod 2 ^ (unat (precision f) div 2) \<and>
        (lonColumn (precision f) (lonBits f') = 2 ^ (unat (precision f) div 2) - 1 \<longrightarrow>
           lonColumn (precision f) (lonBits g) = 0)) \<and>
   (case GetAdjacent ops West f of
      (None, f') \<Rightarrow> False
    | (Some g, f') \<Rightarrow>
        lonColumn (precision f) (lonBits g)
          = (lonColumn (precision f) (lonBits f') + 2 ^ (unat (precision f) div 2) - 1)
              mod 2 ^ (unat (precision f) div 2))"
  using assms
  by (simp add: GetAdjacent_parts moveFrom_East moveFrom_West loadBits_precision
      lonColumn_east lonColumn_west del: push_bit_of_1)

text \<open>
  Claim C8 says that a cell in the last column, moved east, wraps to a cell in the first
  column. At an odd precision it does not. \<open>GetAdjacent\<close> steps by
  \<^verbatim>\<open>1 << (32 - precision/2)\<close>, and a code of odd precision holds one longitude bit more
  than \<^verbatim>\<open>precision/2\<close>, so the step is two columns of cells. At precision 5 the cells
  form 8 columns: the cell of code \<open>0xF800000000000000\<close> is in column 7, the last, and
  its eastern neighbour is in column 1, not in column 0. At precision 1 there are 2
  columns and the step is \<^verbatim>\<open>1 << 32\<close>, which is 0 in 32 bits: the cell of code
  \<open>0x8000000000000000\<close>, in column 1, is its own eastern neighbour.
\<close>

theorem GetAdjacent_east_odd_precision:
  "GetAdjacent ops East (FromHash 0xFFFFFFFFFFFFFFFF 5) =
     (Some \<lparr>hash = 0, latBits = 0xC0000000, lonBits = 0x20000000, lat = 0, lon = 0,
            precision = 5,
            coordinatesCalculated = False, hashCalculated = False, bitsCalculated = True\<rparr>,
      \<lparr>hash = 0xF800000000000000, latBits = 0xC0000000, lonBits = 0xE0000000,
       lat = 0, lon = 0, precision = 5,
       coordinatesCalculated = False, hashCalculated = True, bitsCalculated = True\<rparr>) \<and>
   lonColumn 5 0xE0000000 = 7 \<and> lonColumn 5 0x20000000 = 1 \<and>
   GetAdjacent ops East (FromHash 0xFFFFFFFFFFFFFFFF 1) =
     (Some \<lparr>hash = 0, latBits = 0, lonBits = 0x80000000, lat = 0, lon = 0,
            precision = 1,
            coordinatesCalculated = False, hashCalculated = False, bitsCalculated = True\<rparr>,
      \<lparr>hash = 0x8000000000000000, latBits = 0, lonBits = 0x80000000,
       lat = 0, lon = 0, precision = 1,
       coordinatesCalculated = False, hashCalculated = True, bitsCalculated = True\<rparr>) \<and>
   lonColumn 1 0x80000000 = 1"
  by (simp add: GetAdjacent_def FromHash_def Let_def deinterleave_def lonColumn_def
      b0_def b1_def b2_def b3_def b4_def b5_def)

text \<open>
  Claim C10. Whenever \<open>GetAdjacent\<close> returns a cell, the cell has the precision of the
  receiver, and only the coordinate of the axis moved along changes: a move east or west
  keeps the latitude grid coordinate, a move north or south keeps the longitude grid
  coordinate. The coordinates compared with are those the receiver holds after the call;
  a receiver that held them before is unchanged by the call.
\<close>

theorem GetAdjacent_frame:
  assumes "GetAdjacent ops dir f = (Some g, f')"
  shows "precision g = precision f \<and> Precision g = Precision f \<and>
    precision f' = precision f \<and>
    (bitsCalculated f \<longrightarrow> f' = f) \<and>
    (dir = East \<or> dir = West \<longrightarrow> latBits g = latBits f') \<and>
    (dir = North \<or> dir = South \<longrightarrow> lonBits g = lonBits f')"
  using assms
  by (cases dir)
    (auto simp add: GetAdjacent_def Let_def Precision_def calcBitsFromCoords_def
      split: if_splits prod.splits option.splits)

theorem GetAdjacent_frame_witness:
  "GetAdjacent ops_sample East (FromHash 0xFFFFFFFFFFFFFFFF 4) =
     (Some \<lparr>hash = 0, latBits = 0xC0000000, lonBits = 0, lat = 0, lon = 0, precision = 4,
            coordinatesCalculated = False, hashCalculated = False, bitsCalculated = True\<rparr>,
      \<lparr>hash = 0xF000000000000000, latBits = 0xC0000000, lonBits = 0xC0000000,
       lat = 0, lon = 0, precision = 4,
       coordinatesCalculated = False, hashCalculated = True, bitsCalculated = True\<rparr>) \<and>
   precision (FromHash 0xFFFFFFFFFFFFFFFF 4) = 4"
  using GetAdjacent_frame [OF GetAdjacent_east_top_column [of ops_sample]]
  by (simp add: GetAdjacent_east_top_column)

section \<open>Properties of the range builder\<close>

lemma neighborRanges_nil:
  "None \<in> set ns \<Longrightarrow> neighborRanges ops mn mx ns ranges = Inl NilDereference"
  by (induction ns arbitrary: ranges) (auto split: option.splits prod.splits)

lemma Coordinates_keeps_hash:
  assumes "Coordinates ops f0 = (c, f)"
  shows "hash f = hash f0 \<and> hashCalculated f = hashCalculated f0"
  using assms
  by (auto simp add: Coordinates_def Let_def calcCoordsFromBits_def split: if_splits prod.splits)

text \<open>
  Claim C3 says that \<open>GetHashRangesInside\<close> skips the neighbours that are no cell and
  returns normally. The loop of the source calls \<^verbatim>\<open>n.Hash()\<close> on every neighbour
  without a test. For the cell of code 0, which lies on the south pole at every
  precision, the southern neighbours are nil whatever precision the radius selects, and
  the call ends in a nil dereference: for every radius and whatever the float
  operations compute.
\<close>

theorem GetHashRangesInside_nil_neighbor:
  "fst (GetHashRangesInside ops radius (FromHash 0 64)) = Inl NilDereference"
proof -
  obtain c f where c: "Coordinates ops (FromHash 0 64) = (c, f)"
    by (cases "Coordinates ops (FromHash 0 64)")
  have f: "hashCalculated f" "hash f = 0"
    using Coordinates_keeps_hash [OF c] by (simp_all add: FromHash_def)
  define p where "p = getProximitySearchPrecision ops (fst c) radius"
  have g: "GetInPrecision ops p f = (FromHash 0 p, f)"
    using f by (simp add: GetInPrecision_def Hash_def)
  have "latBits (loadBits ops (FromHash 0 p)) = 0"
    by (simp add: loadBits_def FromHash_def Let_def deinterleave_zero)
  then have "moveFrom South (loadBits ops (FromHash 0 p)) = None"
    by (rule moveFrom_south_pole)
  then have "None \<in> set (fst (GetNeighbors ops (FromHash 0 p)))"
    by (simp add: GetNeighbors_eq)
  then show ?thesis
    by (simp add: GetHashRangesInside_def c g p_def [symmetric] split_beta Let_def
        neighborRanges_nil)
qed

subsection \<open>The centre cell at precision 5\<close>

lemma masks_5:
  "drop_bit (unat (5 :: uint)) (- 1 :: u64) = 0x07FFFFFFFFFFFFFF"
  "NOT (0x07FFFFFFFFFFFFFF :: u64) = 0xF800000000000000"
  by (simp_all add: mask_numeral)

lemma range_centre_5:
  "(0xC000000000000000 :: u64) AND 0xF800000000000000 = 0xC000000000000000"
  "(0xC000000000000000 :: u64) OR 0x07FFFFFFFFFFFFFF = 0xC7FFFFFFFFFFFFFF"
  by simp_all

lemma FromHash_centre_5:
  "FromHash 0xC000000000000000 5 =
     \<lparr>hash = 0xC000000000000000, latBits = 0, lonBits = 0, lat = 0, lon = 0, precision = 5,
      coordinatesCalculated = False, hashCalculated = True, bitsCalculated = False\<rparr>"
  by (simp add: FromHash_def)

lemma deinterleave_centre: "deinterleave 0xC000000000000000 = (0x80000000, 0x80000000)"
  by (simp add: deinterleave_def Let_def b0_def b1_def b2_def b3_def b4_def b5_def)

lemma loadBits_centre_5:
  "loadBits ops (FromHash 0xC000000000000000 5) =
     \<lparr>hash = 0xC000000000000000, latBits = 0x80000000, lonBits = 0x80000000,
      lat = 0, lon = 0, precision = 5,
      coordinatesCalculated = False, hashCalculated = True, bitsCalculated = True\<rparr>"
  by (simp add: FromHash_centre_5 loadBits_def deinterleave_centre)

lemma neighborRanges_centre_5:
  "neighborRanges ops 0xF800000000000000 0x07FFFFFFFFFFFFFF
     (map (\<lambda>dir. moveFrom dir
        \<lparr>hash = 0xC000000000000000, latBits = 0x80000000, lonBits = 0x80000000,
         lat = 0, lon = 0, precision = 5,
         coordinatesCalculated = False, hashCalculated = True, bitsCalculated = True\<rparr>)
        [North, NorthEast, East, SouthEast, South, SouthWest, West, NorthWest])
     [\<lparr>Min_r = 0xC000000000000000, Max_r = 0xC7FFFFFFFFFFFFFF\<rparr>] =
   Inr [\<lparr>Min_r = 0xC000000000000000, Max_r = 0xC7FFFFFFFFFFFFFF\<rparr>,
        \<lparr>Min_r = 0x8000000000000000, Max_r = 0x87FFFFFFFFFFFFFF\<rparr>,
        \<lparr>Min_r = 0xA000000000000000, Max_r = 0xA7FFFFFFFFFFFFFF\<rparr>,
        \<lparr>Min_r = 0xE000000000000000, Max_r = 0xE7FFFFFFFFFFFFFF\<rparr>,
        \<lparr>Min_r = 0xA000000000000000, Max_r = 0xA7FFFFFFFFFFFFFF\<rparr>,
        \<lparr>Min_r = 0x8000000000000000, Max_r = 0x87FFFFFFFFFFFFFF\<rparr>,
        \<lparr>Min_r = 0x2000000000000000, Max_r = 0x27FFFFFFFFFFFFFF\<rparr>,
        \<lparr>Min_r = 0x6000000000000000, Max_r = 0x67FFFFFFFFFFFFFF\<rparr>,
        \<lparr>Min_r = 0x2000000000000000, Max_r = 0x27FFFFFFFFFFFFFF\<rparr>]"
  by code_simp

lemma precision_sample_5:
  "getProximitySearchPrecision ops_sample
     (fst (fst (Coordinates ops_sample (FromHash 0xC000000000000000 64))))
     0x414388AE00000000 = 5"
  by code_simp

text \<open>
  Claim C4 says that, for an interior point, the ranges returned cover the cell and its
  eight neighbours at the selected precision and that no two of them overlap. The
  receiver here is the cell of code \<open>0xC000000000000000\<close>, whose grid coordinates are the
  middle of both axes (latitude 0, longitude 0). When the radius selects precision 5
  (a radius of about 2560 km does), \<open>GetAdjacent\<close> takes \<^verbatim>\<open>latPrecision\<close> 1 and
  \<^verbatim>\<open>lonPrecision\<close> 2, while a code of 5 bits holds 2 latitude bits and 3 longitude
  bits. The latitude step is then half the globe: the northern and the southern
  neighbours are the same row, the row at the south pole, and each of their three cells
  is entered twice. The list returned holds the ranges starting at
  \<open>0x8000000000000000\<close>, \<open>0xA000000000000000\<close> and \<open>0x2000000000000000\<close> twice each. It
  holds none of the eight cells that touch the receiver's 5-bit cell: the cell east of
  it, for one, is the range starting at \<open>0xC800000000000000\<close>.
\<close>

theorem GetHashRangesInside_precision_5:
  assumes "getProximitySearchPrecision ops
     (fst (fst (Coordinates ops (FromHash 0xC000000000000000 64)))) radius = 5"
  shows "fst (GetHashRangesInside ops radius (FromHash 0xC000000000000000 64)) =
   Inr [\<lparr>Min_r = 0xC000000000000000, Max_r = 0xC7FFFFFFFFFFFFFF\<rparr>,
        \<lparr>Min_r = 0x8000000000000000, Max_r = 0x87FFFFFFFFFFFFFF\<rparr>,
        \<lparr>Min_r = 0xA000000000000000, Max_r = 0xA7FFFFFFFFFFFFFF\<rparr>,
        \<lparr>Min_r = 0xE000000000000000, Max_r = 0xE7FFFFFFFFFFFFFF\<rparr>,
        \<lparr>Min_r = 0xA000000000000000, Max_r = 0xA7FFFFFFFFFFFFFF\<rparr>,
        \<lparr>Min_r = 0x8000000000000000, Max_r = 0x87FFFFFFFFFFFFFF\<rparr>,
        \<lparr>Min_r = 0x2000000000000000, Max_r = 0x27FFFFFFFFFFFFFF\<rparr>,
        \<lparr>Min_r = 0x6000000000000000, Max_r = 0x67FFFFFFFFFFFFFF\<rparr>,
        \<lparr>Min_r = 0x2000000000000000, Max_r = 0x27FFFFFFFFFFFFFF\<rparr>]"
proof -
  obtain lt ln f where c: "Coordinates ops (FromHash 0xC000000000000000 64) = ((lt, ln), f)"
    by (metis prod.exhaust)
  have f: "hashCalculated f" "hash f = 0xC000000000000000"
    using Coordinates_keeps_hash [OF c] by (simp_all add: FromHash_def)
  have p: "getProximitySearchPrecision ops lt radius = 5"
    using assms by (simp add: c)
  have g: "GetInPrecision ops 5 f = (FromHash 0xC000000000000000 5, f)"
    using f by (simp add: GetInPrecision_def Hash_def FromHash_def)
  have h: "Hash ops
        \<lparr>hash = 0xC000000000000000, latBits = 0x80000000, lonBits = 0x80000000,
         lat = 0, lon = 0, precision = 5,
         coordinatesCalculated = False, hashCalculated = True, bitsCalculated = True\<rparr>
      = (0xC000000000000000,
        \<lparr>hash = 0xC000000000000000, latBits = 0x80000000, lonBits = 0x80000000,
         lat = 0, lon = 0, precision = 5,
         coordinatesCalculated = False, hashCalculated = True, bitsCalculated = True\<rparr>)"
    by (simp add: Hash_def)
  show ?thesis
    unfolding GetHashRangesInside_def
    by (simp only: c prod.case p Let_def g GetNeighbors_eq h fst_conv masks_5 range_centre_5
        loadBits_centre_5 neighborRanges_centre_5)
qed

theorem GetHashRangesInside_precision_5_witness:
  "getProximitySearchPrecision ops_sample
     (fst (fst (Coordinates ops_sample (FromHash 0xC000000000000000 64))))
     0x414388AE00000000 = 5 \<and>
   (case fst (GetHashRangesInside ops_sample 0x414388AE00000000 (FromHash 0xC000000000000000 64))
    of Inl e \<Rightarrow> False
     | Inr ranges \<Rightarrow> length ranges = 9 \<and> ranges ! 1 = ranges ! 5)"
  using GetHashRangesInside_precision_5 [OF precision_sample_5] precision_sample_5
  by simp

end
